theory Spec2Isabelle
  imports Complex_Main "HOL-Library.Sublist" "HOL-Library.Char_ord" "HOL-Library.List_Lexorder"
begin

section \<open>JavaScript values used by render.ts\<close>

text \<open>
  A JavaScript number is modelled as an exact rational or \<open>NaN\<close>. The rounding of IEEE
  doubles and the two infinities are outside the model: arithmetic is exact. Every
  comparison with \<open>NaN\<close> is false and every operation on \<open>NaN\<close> gives \<open>NaN\<close>.

  What this covers: the result of one operation on doubles is the double nearest to the
  exact result (and doubling is exact), so it is determined by the exact result, and the
  conversion to text is a parameter of the model (\<open>String\<close> below). What it does not cover:
  the value of a chain of operations, where the code rounds after each one.
\<close>

datatype jsnum = NaN | Num rat

fun isNaN :: "jsnum \<Rightarrow> bool" where
  "isNaN NaN = True"
| "isNaN (Num _) = False"

fun jadd :: "jsnum \<Rightarrow> jsnum \<Rightarrow> jsnum" where
  "jadd (Num a) (Num b) = Num (a + b)"
| "jadd _ _ = NaN"

fun jsub :: "jsnum \<Rightarrow> jsnum \<Rightarrow> jsnum" where
  "jsub (Num a) (Num b) = Num (a - b)"
| "jsub _ _ = NaN"

fun jmul :: "jsnum \<Rightarrow> jsnum \<Rightarrow> jsnum" where
  "jmul (Num a) (Num b) = Num (a * b)"
| "jmul _ _ = NaN"

text \<open>
  Division: render.ts divides only under the guard \<open>width > 0 && height > 0\<close>, so a zero
  divisor is never reached; the model answers \<open>NaN\<close> there.
\<close>

fun jdiv :: "jsnum \<Rightarrow> jsnum \<Rightarrow> jsnum" where
  "jdiv (Num a) (Num b) = (if b = 0 then NaN else Num (a / b))"
| "jdiv _ _ = NaN"

fun jle :: "jsnum \<Rightarrow> jsnum \<Rightarrow> bool" where
  "jle (Num a) (Num b) = (a \<le> b)"
| "jle _ _ = False"

fun jgt :: "jsnum \<Rightarrow> jsnum \<Rightarrow> bool" where
  "jgt (Num a) (Num b) = (a > b)"
| "jgt _ _ = False"

text \<open>\<open>Math.round\<close>: the nearest integer, halves rounded up.\<close>

fun Math_round :: "jsnum \<Rightarrow> jsnum" where
  "Math_round (Num a) = Num (of_int \<lfloor>a + 1 / 2\<rfloor>)"
| "Math_round NaN = NaN"

text \<open>
  Truthiness of a value of type \<open>string | null\<close>: \<open>null\<close> and the empty string are falsy.
  \<open>getAttribute\<close> answers \<open>null\<close> (\<open>None\<close>) or, in older xmldom releases, the empty string
  for an attribute that is not there; render.ts treats both alike.
\<close>

fun truthy :: "string option \<Rightarrow> bool" where
  "truthy None = False"
| "truthy (Some s) = (s \<noteq> [])"

subsection \<open>String built-ins\<close>

text \<open>
  Strings are lists of 8-bit characters: a character stands for a UTF-16 code unit below
  256 (ASCII and Latin-1), and text with other characters is outside the model.
  \<open>isSpace\<close> is the class \<open>\s\<close> of a regular expression (and what \<open>trim\<close> removes) on these
  characters: tab, line feed, vertical tab, form feed, carriage return, space and the
  no-break space.
\<close>

definition isSpace :: "char \<Rightarrow> bool" where
  "isSpace c =
     (c \<in> set [CHR 0x09, CHR 0x0A, CHR 0x0B, CHR 0x0C, CHR 0x0D, CHR 0x20, CHR 0xA0])"

definition trim :: "string \<Rightarrow> string" where
  "trim s = rev (dropWhile isSpace (rev (dropWhile isSpace s)))"

text \<open>
  \<open>s.split(/\s+/)\<close>: the pieces between maximal runs of white space. Leading or trailing
  white space gives an empty first or last piece; the empty string gives one empty piece.
\<close>

function splitWs :: "string \<Rightarrow> string \<Rightarrow> string list" where
  "splitWs acc [] = [rev acc]"
| "splitWs acc (c # cs) =
     (if isSpace c then rev acc # splitWs [] (dropWhile isSpace cs)
      else splitWs (c # acc) cs)"
  by pat_completeness auto
termination
  by (relation "measure (\<lambda>(acc, s). length s)")
     (auto simp: length_dropWhile_le less_Suc_eq_le)

definition split_ws :: "string \<Rightarrow> string list" where
  "split_ws s = splitWs [] s"

text \<open>
  \<open>s.includes(sub)\<close>: \<open>sub\<close> occurs in \<open>s\<close> as a contiguous piece (\<open>includes\<close> is a keyword of
  Isabelle, hence the longer name).
\<close>

fun includes_str :: "string \<Rightarrow> string \<Rightarrow> bool" where
  "includes_str [] sub = (sub = [])"
| "includes_str (c # cs) sub = (prefix sub (c # cs) \<or> includes_str cs sub)"

definition endsWith :: "string \<Rightarrow> string \<Rightarrow> bool" where
  "endsWith s suf = suffix suf s"

text \<open>
  \<open>toLowerCase\<close> on these characters: the letters A to Z go to a to z, the upper-case
  letters of Latin-1 (codes C0 to D6 and D8 to DE) go to the code 32 above, every other
  character stays.
\<close>

definition upperCaseLetters :: string where
  "upperCaseLetters =
     ''ABCDEFGHIJKLMNOPQRSTUVWXYZ'' @
     [CHR 0xC0, CHR 0xC1, CHR 0xC2, CHR 0xC3, CHR 0xC4, CHR 0xC5, CHR 0xC6, CHR 0xC7,
      CHR 0xC8, CHR 0xC9, CHR 0xCA, CHR 0xCB, CHR 0xCC, CHR 0xCD, CHR 0xCE, CHR 0xCF,
      CHR 0xD0, CHR 0xD1, CHR 0xD2, CHR 0xD3, CHR 0xD4, CHR 0xD5, CHR 0xD6, CHR 0xD8,
      CHR 0xD9, CHR 0xDA, CHR 0xDB, CHR 0xDC, CHR 0xDD, CHR 0xDE]"

definition lowerCaseLetters :: string where
  "lowerCaseLetters =
     ''abcdefghijklmnopqrstuvwxyz'' @
     [CHR 0xE0, CHR 0xE1, CHR 0xE2, CHR 0xE3, CHR 0xE4, CHR 0xE5, CHR 0xE6, CHR 0xE7,
      CHR 0xE8, CHR 0xE9, CHR 0xEA, CHR 0xEB, CHR 0xEC, CHR 0xED, CHR 0xEE, CHR 0xEF,
      CHR 0xF0, CHR 0xF1, CHR 0xF2, CHR 0xF3, CHR 0xF4, CHR 0xF5, CHR 0xF6, CHR 0xF8,
      CHR 0xF9, CHR 0xFA, CHR 0xFB, CHR 0xFC, CHR 0xFD, CHR 0xFE]"

definition toLowerChar :: "char \<Rightarrow> char" where
  "toLowerChar c =
     (case map_of (zip upperCaseLetters lowerCaseLetters) c of
        Some l \<Rightarrow> l
      | None \<Rightarrow> c)"

definition toLowerCase :: "string \<Rightarrow> string" where
  "toLowerCase s = map toLowerChar s"

section \<open>The document object model\<close>

text \<open>
  A parsed document is a tree of nodes; every element is an object with an identity
  (\<open>ref\<close>), and \<open>setAttribute\<close> mutates that object in place. The model keeps the tree
  (element identity, tag name, child nodes) and, apart from it, the store of the mutable
  part: the attribute list of every element, in document order of the attributes.
\<close>

type_synonym ref = nat

type_synonym attrs = "(string \<times> string) list"

datatype node = Element ref string "node list" | Text string

record document =
  childNodes :: "node list"
  attributes :: "ref \<Rightarrow> attrs"

text \<open>
  \<open>getElementsByTagName(tag)\<close>: the elements with that tag name, in document order
  (an element before its descendants, children from first to last).
\<close>

fun elementsOf :: "string \<Rightarrow> node \<Rightarrow> ref list" where
  "elementsOf tag (Text _) = []"
| "elementsOf tag (Element r t kids) =
     (if t = tag then [r] else []) @ concat (map (elementsOf tag) kids)"

definition getElementsByTagName :: "document \<Rightarrow> string \<Rightarrow> ref list" where
  "getElementsByTagName doc tag = concat (map (elementsOf tag) (childNodes doc))"

definition getAttribute :: "document \<Rightarrow> ref \<Rightarrow> string \<Rightarrow> string option" where
  "getAttribute doc r name = map_of (attributes doc r) name"

text \<open>
  \<open>setAttribute\<close>: an attribute that exists keeps its place and gets the new value, a new
  one is appended.
\<close>

fun setAttr :: "string \<Rightarrow> string \<Rightarrow> attrs \<Rightarrow> attrs" where
  "setAttr name v [] = [(name, v)]"
| "setAttr name v ((k, w) # rest) =
     (if k = name then (k, v) # rest else (k, w) # setAttr name v rest)"

definition setAttribute :: "document \<Rightarrow> ref \<Rightarrow> string \<Rightarrow> string \<Rightarrow> document" where
  "setAttribute doc r name v =
     doc\<lparr>attributes := (attributes doc)(r := setAttr name v (attributes doc r))\<rparr>"

section \<open>The runtime render.ts calls into\<close>

text \<open>
  The conversions between strings and numbers belong to the JavaScript language
  (\<open>Number(s)\<close>, \<open>parseFloat(s)\<close>, and \<open>String(n)\<close>, which is also what a template literal and
  \<open>n + "ex"\<close> apply to a number); the parser and the serializer belong to the xmldom
  library. They are parameters of the model.
\<close>

record runtime =
  Number :: "string \<Rightarrow> jsnum"
  parseFloat :: "string \<Rightarrow> jsnum"
  String :: "jsnum \<Rightarrow> string"
  parseFromString :: "string \<Rightarrow> document"
  serializeToString :: "document \<Rightarrow> string"

section \<open>The outline post-processor\<close>

record OutlineOpts =
  stroke :: string
  strokeWidth :: jsnum

definition BRIGHT_OUTLINE_STROKE_COLOR :: string where
  "BRIGHT_OUTLINE_STROKE_COLOR = ''#ddd''"

definition BRIGHT_OUTLINE_STROKE_WIDTH :: jsnum where
  "BRIGHT_OUTLINE_STROKE_WIDTH = Num 45"

text \<open>The body of the loop \<open>for (const p of paths)\<close> of \<open>addOutlineToMathJaxSvg\<close>.\<close>

definition outlinePath :: "runtime \<Rightarrow> OutlineOpts \<Rightarrow> document \<Rightarrow> ref \<Rightarrow> document" where
  "outlinePath rt opts doc p =
     (let fill = getAttribute doc p ''fill'' in
      if fill = Some ''none'' then doc
      else
        let doc = setAttribute doc p ''stroke'' (stroke opts);
            doc = setAttribute doc p ''stroke-width'' (String rt (strokeWidth opts));
            doc = setAttribute doc p ''paint-order'' ''stroke fill'';
            doc = setAttribute doc p ''stroke-linejoin'' ''round''
        in doc)"

fun outlinePaths :: "runtime \<Rightarrow> OutlineOpts \<Rightarrow> document \<Rightarrow> ref list \<Rightarrow> document" where
  "outlinePaths rt opts doc [] = doc"
| "outlinePaths rt opts doc (p # paths) = outlinePaths rt opts (outlinePath rt opts doc p) paths"

text \<open>
  The attribute list of a path after the four \<open>setAttribute\<close> calls of the loop body; the
  properties of the loop are stated with it.
\<close>

definition outlinedAttrs :: "runtime \<Rightarrow> OutlineOpts \<Rightarrow> attrs \<Rightarrow> attrs" where
  "outlinedAttrs rt opts as =
     setAttr ''stroke-linejoin'' ''round''
       (setAttr ''paint-order'' ''stroke fill''
          (setAttr ''stroke-width'' (String rt (strokeWidth opts))
             (setAttr ''stroke'' (stroke opts) as)))"

definition outlineDocument :: "runtime \<Rightarrow> OutlineOpts \<Rightarrow> document \<Rightarrow> document" where
  "outlineDocument rt opts doc = outlinePaths rt opts doc (getElementsByTagName doc ''path'')"

definition addOutlineToMathJaxSvg :: "runtime \<Rightarrow> string \<Rightarrow> OutlineOpts \<Rightarrow> string" where
  "addOutlineToMathJaxSvg rt svgText opts =
     (let doc = parseFromString rt svgText
      in serializeToString rt (outlineDocument rt opts doc))"

section \<open>The margin post-processor\<close>

text \<open>
  The second half of \<open>addMarginToSvg\<close>, from the comment
  \<open>// Expand viewBox by margin on all sides\<close> to the document handed to the serializer.
  The \<open>console.log\<close> calls of the function are left out.
\<close>

definition expandViewBox ::
  "runtime \<Rightarrow> document \<Rightarrow> ref \<Rightarrow> jsnum \<Rightarrow> jsnum \<Rightarrow> jsnum \<Rightarrow> jsnum \<Rightarrow> jsnum \<Rightarrow> document" where
  "expandViewBox rt doc svgElement x y width height margin =
     (let newX = jsub x margin;
          newY = jsub y margin;
          newWidth = jadd width (jmul (Num 2) margin);
          newHeight = jadd height (jmul (Num 2) margin);
          doc = setAttribute doc svgElement ''viewBox''
                  (String rt newX @ '' '' @ String rt newY @ '' '' @
                   String rt newWidth @ '' '' @ String rt newHeight);
          widthAttr = getAttribute doc svgElement ''width'';
          heightAttr = getAttribute doc svgElement ''height''
      in
        if truthy widthAttr \<and> \<not> includes_str (the widthAttr) ''%'' then
          let widthValue = parseFloat rt (the widthAttr) in
          if \<not> isNaN widthValue \<and> jgt width (Num 0) \<and> jgt height (Num 0) then
            let aspectRatio = jdiv width height;
                newWidthValue = jadd widthValue (jmul (jmul (Num 2) margin) (jdiv widthValue width));
                newHeightValue = jdiv newWidthValue aspectRatio;
                doc = setAttribute doc svgElement ''width'' (String rt newWidthValue @ ''ex'')
            in
              if truthy heightAttr \<and> \<not> includes_str (the heightAttr) ''%'' then
                setAttribute doc svgElement ''height'' (String rt newHeightValue @ ''ex'')
              else doc
          else doc
        else doc)"

definition addMarginToSvg :: "runtime \<Rightarrow> string \<Rightarrow> jsnum \<Rightarrow> string" where
  "addMarginToSvg rt svgText margin =
     (if jle margin (Num 0) then svgText
      else
        let doc = parseFromString rt svgText in
        case getElementsByTagName doc ''svg'' of
          [] \<Rightarrow> svgText
        | svgElement # _ \<Rightarrow>
            let viewBox = getAttribute doc svgElement ''viewBox'' in
            if \<not> truthy viewBox then svgText
            else
              let parts = map (Number rt) (split_ws (the viewBox)) in
              if length parts \<noteq> 4 then svgText
              else
                (case parts of
                   [x, y, width, height] \<Rightarrow>
                     serializeToString rt (expandViewBox rt doc svgElement x y width height margin)
                 | _ \<Rightarrow> svgText))"

section \<open>Files and names\<close>

text \<open>
  \<open>filename.replace(/\.[^.]+$/, "")\<close>: the last dot and what follows it are removed when at
  least one character follows that dot; otherwise the name stays as it is.
\<close>

definition slugify :: "string \<Rightarrow> string" where
  "slugify filename =
     (let ext = rev (takeWhile (\<lambda>c. c \<noteq> CHR ''.'') (rev filename))
      in if CHR ''.'' \<in> set filename \<and> ext \<noteq> []
         then take (length filename - length ext - 1) filename
         else filename)"

text \<open>A directory entry as \<open>readdir\<close> gives it with \<open>withFileTypes\<close>.\<close>

record Dirent =
  name :: string
  isFile :: bool

datatype error = FsError | ConvertError | NoSvgElement | RasterError

datatype console_line = error_line string | warn_line string | log_line string

text \<open>
  What \<open>main\<close> reaches outside render.ts: the \<open>path\<close> module (\<open>relative\<close> is
  \<open>path.relative(process.cwd(), p)\<close>), the directory listing, MathJax (\<open>convert\<close> is
  \<open>html.convert\<close> followed by \<open>adaptor.outerHTML\<close>) and sharp (\<open>rasterize\<close> is the PNG
  made from the text at a density). \<open>None\<close> is a call that throws. Creating a directory
  and writing a file are taken to succeed.
\<close>

record environment =
  resolve :: "string \<Rightarrow> string"
  join :: "string \<Rightarrow> string \<Rightarrow> string"
  relative :: "string \<Rightarrow> string"
  readdir :: "string \<Rightarrow> Dirent list option"
  convert :: "string \<Rightarrow> bool \<Rightarrow> string option"
  rasterize :: "string \<Rightarrow> jsnum \<Rightarrow> string option"

text \<open>
  The state \<open>main\<close> changes: file contents, directories made, the lines \<open>main\<close> itself
  writes to the console (the \<open>console.log\<close> lines of \<open>addMarginToSvg\<close> are not recorded),
  and \<open>process.exitCode\<close>.
\<close>

record world =
  fs :: "string \<rightharpoonup> string"
  dirs :: "string set"
  console :: "console_line list"
  exitCode :: "nat option"

definition ensureDir :: "string \<Rightarrow> world \<Rightarrow> world" where
  "ensureDir dir w = w\<lparr>dirs := insert dir (dirs w)\<rparr>"

definition listTexFiles :: "environment \<Rightarrow> string \<Rightarrow> error + string list" where
  "listTexFiles env dir =
     (case readdir env dir of
        None \<Rightarrow> Inl FsError
      | Some items \<Rightarrow>
          Inr (sort (map name
                 (filter (\<lambda>d. isFile d \<and> endsWith (toLowerCase (name d)) ''.tex'') items))))"

section \<open>Rendering one equation\<close>

definition wrapSvg :: "string \<Rightarrow> string" where
  "wrapSvg svgInner = trim svgInner @ [CHR 0x0A]"

text \<open>\<open>breakOn pat s\<close>: the text before and after the first place where \<open>pat\<close> occurs in \<open>s\<close>.\<close>

fun breakOn :: "string \<Rightarrow> string \<Rightarrow> (string \<times> string) option" where
  "breakOn pat [] = (if pat = [] then Some ([], []) else None)"
| "breakOn pat (c # cs) =
     (if prefix pat (c # cs) then Some ([], drop (length pat) (c # cs))
      else (case breakOn pat cs of
              None \<Rightarrow> None
            | Some (before, after) \<Rightarrow> Some (c # before, after)))"

text \<open>
  \<open>fullHtml.match(/<svg[\s\S]*?<\/svg>/)\<close>: from the first \<open><svg\<close> to the first \<open></svg>\<close> that
  follows it.
\<close>

definition matchSvg :: "string \<Rightarrow> string option" where
  "matchSvg fullHtml =
     (case breakOn ''<svg'' fullHtml of
        None \<Rightarrow> None
      | Some (_, rest) \<Rightarrow>
          (case breakOn ''</svg>'' rest of
             None \<Rightarrow> None
           | Some (inner, _) \<Rightarrow> Some (''<svg'' @ inner @ ''</svg>'')))"

definition renderOne :: "runtime \<Rightarrow> environment \<Rightarrow> string \<Rightarrow> bool \<Rightarrow> error + string" where
  "renderOne rt env latex disp =
     (case convert env latex disp of
        None \<Rightarrow> Inl ConvertError
      | Some fullHtml \<Rightarrow>
          (case matchSvg fullHtml of
             None \<Rightarrow> Inl NoSvgElement
           | Some svgText \<Rightarrow>
               let svgWithOutline =
                     addOutlineToMathJaxSvg rt svgText
                       \<lparr>stroke = BRIGHT_OUTLINE_STROKE_COLOR,
                        strokeWidth = BRIGHT_OUTLINE_STROKE_WIDTH\<rparr>
               in Inr (wrapSvg svgWithOutline)))"

section \<open>The batch\<close>

record RenderConfig =
  equationsDir :: string
  outDir :: string
  display :: bool
  pngScale :: "jsnum option"
  margin :: "jsnum option"

text \<open>
  The loop \<open>for (const file of files)\<close> of \<open>main\<close>, with the two resolved directories. The
  result is the error that ended the run, if any, and the state reached.
\<close>

fun processFiles ::
  "runtime \<Rightarrow> environment \<Rightarrow> RenderConfig \<Rightarrow> string \<Rightarrow> string \<Rightarrow> string list \<Rightarrow> world
     \<Rightarrow> error option \<times> world" where
  "processFiles rt env cfg eqDir oDir [] w = (None, w)"
| "processFiles rt env cfg eqDir oDir (file # files) w =
     (let inPath = join env eqDir file in
      case fs w inPath of
        None \<Rightarrow> (Some FsError, w)
      | Some content \<Rightarrow>
          let latex = trim content in
          if latex = [] then
            processFiles rt env cfg eqDir oDir files
              (w\<lparr>console := console w @ [warn_line (''Skipping empty file: '' @ file)]\<rparr>)
          else
            (case renderOne rt env latex (display cfg) of
               Inl e \<Rightarrow> (Some e, w)
             | Inr rendered \<Rightarrow>
                 let mrg = (case margin cfg of None \<Rightarrow> Num 0 | Some v \<Rightarrow> v);
                     svg = (if jgt mrg (Num 0) then addMarginToSvg rt rendered mrg else rendered);
                     base = slugify file;
                     svgPath = join env oDir (base @ ''.svg'');
                     w = w\<lparr>fs := (fs w)(svgPath \<mapsto> svg)\<rparr>;
                     w = w\<lparr>console := console w @
                            [log_line (''Wrote '' @ relative env svgPath @
                               (if jgt mrg (Num 0) then '' (margin: '' @ String rt mrg @ '')'' else []))]\<rparr>;
                     pngPath = join env oDir (base @ ''.png'');
                     scale = (case pngScale cfg of None \<Rightarrow> Num 1 | Some v \<Rightarrow> v);
                     density = Math_round (jmul (Num 72) scale)
                 in
                   (case rasterize env svg density of
                      None \<Rightarrow> (Some RasterError, w)
                    | Some png \<Rightarrow>
                        let w = w\<lparr>fs := (fs w)(pngPath \<mapsto> png)\<rparr>;
                            w = w\<lparr>console := console w @
                                   [log_line (''Wrote '' @ relative env pngPath @
                                      '' (scale: '' @ String rt scale @ ''x'' @
                                      (if jgt mrg (Num 0) then '', margin: '' @ String rt mrg else []) @
                                      '')'')]\<rparr>
                        in processFiles rt env cfg eqDir oDir files w)))"

definition main :: "runtime \<Rightarrow> environment \<Rightarrow> RenderConfig \<Rightarrow> world \<Rightarrow> error option \<times> world" where
  "main rt env cfg w =
     (let eqDir = resolve env (equationsDir cfg);
          oDir = resolve env (outDir cfg);
          w = ensureDir oDir w
      in
        case listTexFiles env eqDir of
          Inl e \<Rightarrow> (Some e, w)
        | Inr files \<Rightarrow>
            if length files = 0 then
              (None, w\<lparr>console := console w @ [error_line (''No .tex files found in '' @ eqDir)],
                       exitCode := Some 1\<rparr>)
            else processFiles rt env cfg eqDir oDir files w)"

section \<open>A runtime for evaluating examples\<close>

text \<open>
  The theorems below hold for every runtime. To evaluate the functions on concrete
  documents, \<open>exampleRuntime\<close> fixes one: the number conversions of JavaScript on decimal
  integers (a string of digits with an optional sign converts to that integer,
  \<open>parseFloat\<close> reads the longest such prefix, an integer prints as its digits; \<open>NaN\<close> stands
  for every other string), a serializer that prints an element with its attributes in
  order, and the parser as the inverse of that serializer on the documents listed in
  \<open>exampleDocuments\<close>.
\<close>

definition isDigit :: "char \<Rightarrow> bool" where
  "isDigit c = (c \<in> set ''0123456789'')"

definition digitValue :: "char \<Rightarrow> nat" where
  "digitValue c =
     (case map_of (zip ''0123456789'' [0, 1, 2, 3, 4, 5, 6, 7, 8, 9]) c of
        Some d \<Rightarrow> d
      | None \<Rightarrow> 0)"

definition digitsValue :: "string \<Rightarrow> nat" where
  "digitsValue s = foldl (\<lambda>n c. 10 * n + digitValue c) 0 s"

definition integerLiteral :: "string \<Rightarrow> jsnum" where
  "integerLiteral s =
     (if s \<noteq> [] \<and> list_all isDigit s then Num (of_nat (digitsValue s))
      else if 1 < length s \<and> hd s = CHR ''+'' \<and> list_all isDigit (tl s)
        then Num (of_nat (digitsValue (tl s)))
      else if 1 < length s \<and> hd s = CHR ''-'' \<and> list_all isDigit (tl s)
        then Num (- of_nat (digitsValue (tl s)))
      else NaN)"

definition integerPrefix :: "string \<Rightarrow> jsnum" where
  "integerPrefix s =
     (if s \<noteq> [] \<and> (hd s = CHR ''+'' \<or> hd s = CHR ''-'')
      then integerLiteral (hd s # takeWhile isDigit (tl s))
      else integerLiteral (takeWhile isDigit s))"

fun natString :: "nat \<Rightarrow> string" where
  "natString n =
     (if n < 10 then [''0123456789'' ! n]
      else natString (n div 10) @ [''0123456789'' ! (n mod 10)])"

declare natString.simps [simp del]

definition numberString :: "jsnum \<Rightarrow> string" where
  "numberString n =
     (case n of
        NaN \<Rightarrow> ''NaN''
      | Num q \<Rightarrow> if q < 0 then ''-'' @ natString (nat \<lfloor>- q\<rfloor>) else natString (nat \<lfloor>q\<rfloor>))"

fun serializeNode :: "(ref \<Rightarrow> attrs) \<Rightarrow> node \<Rightarrow> string" where
  "serializeNode atts (Text s) = s"
| "serializeNode atts (Element r t kids) =
     ''<'' @ t @ concat (map (\<lambda>(k, v). '' '' @ k @ [CHR 0x3D, CHR 0x22] @ v @ [CHR 0x22]) (atts r)) @
     (if kids = [] then ''/>''
      else ''>'' @ concat (map (serializeNode atts) kids) @ ''</'' @ t @ ''>'')"

definition serializeDocument :: "document \<Rightarrow> string" where
  "serializeDocument doc = concat (map (serializeNode (attributes doc)) (childNodes doc))"

definition svgOnly :: "attrs \<Rightarrow> document" where
  "svgOnly atts = \<lparr>childNodes = [Element 0 ''svg'' []], attributes = (\<lambda>r. if r = 0 then atts else [])\<rparr>"

definition twoPaths :: "attrs \<Rightarrow> attrs \<Rightarrow> document" where
  "twoPaths a b =
     \<lparr>childNodes = [Element 0 ''svg'' [Element 1 ''path'' [], Element 2 ''path'' []]],
      attributes = (\<lambda>r. if r = 1 then a else if r = 2 then b else [])\<rparr>"

definition exampleDocuments :: "document list" where
  "exampleDocuments =
     [svgOnly [(''viewBox'', ''0 0 100 50'')],
      svgOnly [(''viewBox'', ''0 0 100 50''), (''width'', ''10pt''), (''height'', ''5pt'')],
      svgOnly [(''viewBox'', ''0 0 100 50''), (''width'', ''100%''), (''height'', ''5ex'')],
      svgOnly [(''viewBox'', ''a b c d'')],
      twoPaths [(''d'', ''M0 0'')] [(''fill'', ''none''), (''d'', ''M1 1'')],
      twoPaths [(''d'', ''M0 0''), (''stroke'', ''#ddd''), (''stroke-width'', ''45''),
                (''paint-order'', ''stroke fill''), (''stroke-linejoin'', ''round'')]
               [(''fill'', ''none''), (''d'', ''M1 1'')]]"

definition exampleParse :: "string \<Rightarrow> document" where
  "exampleParse s =
     (case find (\<lambda>d. serializeDocument d = s) exampleDocuments of
        Some d \<Rightarrow> d
      | None \<Rightarrow> \<lparr>childNodes = [], attributes = (\<lambda>r. [])\<rparr>)"

definition exampleRuntime :: runtime where
  "exampleRuntime =
     \<lparr>Number = integerLiteral, parseFloat = integerPrefix, String = numberString,
      parseFromString = exampleParse, serializeToString = serializeDocument\<rparr>"

text \<open>
  An environment for evaluating \<open>main\<close>: the working directory is \<open>/work\<close>, the directory
  \<open>/work/equations\<close> has the given entries, MathJax answers every equation with the same two
  paths inside its container element, and sharp answers with a fixed text.
\<close>

definition exampleEnvironment :: "Dirent list \<Rightarrow> environment" where
  \<open>exampleEnvironment items =
     \<lparr>resolve = (\<lambda>p. ''/work/'' @ p),
      join = (\<lambda>d f. d @ ''/'' @ f),
      relative = (\<lambda>p. drop 6 p),
      readdir = (\<lambda>d. if d = ''/work/equations'' then Some items else None),
      convert = (\<lambda>latex disp.
        Some (''<mjx-container><svg><path d="M0 0"/><path fill="none" d="M1 1"/></svg></mjx-container>'')),
      rasterize = (\<lambda>svg density. Some ''PNG'')\<rparr>\<close>

definition exampleConfig :: RenderConfig where
  "exampleConfig =
     \<lparr>equationsDir = ''equations'', outDir = ''out'', display = True,
      pngScale = Some (Num 10), margin = None\<rparr>"

definition exampleWorld :: world where
  "exampleWorld =
     \<lparr>fs = [''/work/equations/a.tex'' \<mapsto> [CHR '' '', CHR 0x0A],
            ''/work/equations/b.tex'' \<mapsto> ''x^2''],
      dirs = {}, console = [], exitCode = None\<rparr>"

section \<open>Attributes and the element tree\<close>

lemma map_of_setAttr: "map_of (setAttr k v as) k' = (if k' = k then Some v else map_of as k')"
  by (induction as) auto

lemma setAttr_same: "map_of as k = Some v \<Longrightarrow> setAttr k v as = as"
  by (induction as) (auto split: if_splits)

lemma getAttribute_setAttribute:
  "getAttribute (setAttribute doc r k v) r' k' =
     (if r' = r \<and> k' = k then Some v else getAttribute doc r' k')"
  by (simp add: getAttribute_def setAttribute_def map_of_setAttr)

lemma childNodes_setAttribute: "childNodes (setAttribute doc r k v) = childNodes doc"
  by (simp add: setAttribute_def)

lemma getElementsByTagName_setAttribute:
  "getElementsByTagName (setAttribute doc r k v) tag = getElementsByTagName doc tag"
  by (simp add: getElementsByTagName_def childNodes_setAttribute)

lemma includes_str_percent: "includes_str s ''%'' \<longleftrightarrow> CHR ''%'' \<in> set s"
  by (induction s) auto

section \<open>The example runtime\<close>

lemmas example_conversions =
  split_ws_def isSpace_def integerLiteral_def integerPrefix_def isDigit_def digitsValue_def
  digitValue_def numberString_def natString.simps

lemmas example_documents =
  exampleParse_def exampleDocuments_def serializeDocument_def svgOnly_def twoPaths_def

text \<open>The example parser inverts the example serializer on the listed documents.\<close>

lemma exampleParse_inverse:
  "d \<in> set exampleDocuments \<Longrightarrow> exampleParse (serializeDocument d) = d"
  apply (simp add: exampleDocuments_def)
  apply (elim disjE)
  apply (simp_all add: example_documents)
  done

lemma exampleParse_viewBox_only:
  \<open>exampleParse ''<svg viewBox="0 0 100 50"/>'' = svgOnly [(''viewBox'', ''0 0 100 50'')]\<close>
  by (simp add: example_documents)

lemma exampleParse_pt:
  \<open>exampleParse ''<svg viewBox="0 0 100 50" width="10pt" height="5pt"/>'' =
     svgOnly [(''viewBox'', ''0 0 100 50''), (''width'', ''10pt''), (''height'', ''5pt'')]\<close>
  by (simp add: example_documents)

lemma exampleParse_percent:
  \<open>exampleParse ''<svg viewBox="0 0 100 50" width="100%" height="5ex"/>'' =
     svgOnly [(''viewBox'', ''0 0 100 50''), (''width'', ''100%''), (''height'', ''5ex'')]\<close>
  by (simp add: example_documents)

lemma exampleParse_letters:
  \<open>exampleParse ''<svg viewBox="a b c d"/>'' = svgOnly [(''viewBox'', ''a b c d'')]\<close>
  by (simp add: example_documents)

lemma exampleParse_paths:
  \<open>exampleParse ''<svg><path d="M0 0"/><path fill="none" d="M1 1"/></svg>'' =
     twoPaths [(''d'', ''M0 0'')] [(''fill'', ''none''), (''d'', ''M1 1'')]\<close>
  by (simp add: example_documents)

section \<open>The margin post-processor: properties\<close>

text \<open>
  Past its guards (a positive margin, an \<open>svg\<close> element, a \<open>viewBox\<close> attribute of four
  pieces), \<open>addMarginToSvg\<close> serializes the document that \<open>expandViewBox\<close> builds.
\<close>

lemma addMarginToSvg_guards:
  assumes "\<not> jle m (Num 0)"
    and "getElementsByTagName (parseFromString rt svgText) ''svg'' = svgElement # others"
    and "getAttribute (parseFromString rt svgText) svgElement ''viewBox'' = Some viewBox"
    and "map (Number rt) (split_ws viewBox) = [x, y, w, h]"
  shows "addMarginToSvg rt svgText m =
           serializeToString rt (expandViewBox rt (parseFromString rt svgText) svgElement x y w h m)"
proof -
  have "viewBox \<noteq> []"
    using assms(4) by (auto simp: split_ws_def)
  then show ?thesis
    using assms by (simp add: addMarginToSvg_def Let_def)
qed

lemma expandViewBox_viewBox:
  "getAttribute (expandViewBox rt doc e x y w h m) e ''viewBox'' =
     Some (String rt (jsub x m) @ '' '' @ String rt (jsub y m) @ '' '' @
           String rt (jadd w (jmul (Num 2) m)) @ '' '' @ String rt (jadd h (jmul (Num 2) m)))"
  by (simp add: expandViewBox_def Let_def getAttribute_setAttribute)

lemma expandViewBox_childNodes: "childNodes (expandViewBox rt doc e x y w h m) = childNodes doc"
  by (simp add: expandViewBox_def Let_def childNodes_setAttribute)

text \<open>The branch that rewrites the declared size, and the branch that does not.\<close>

lemma expandViewBox_sized:
  assumes "getAttribute doc e ''width'' = Some wa" and "wa \<noteq> []" and "\<not> includes_str wa ''%''"
    and "\<not> isNaN (parseFloat rt wa)" and "jgt w (Num 0)" and "jgt h (Num 0)"
  shows "expandViewBox rt doc e x y w h m =
     (let vb = setAttribute doc e ''viewBox''
                 (String rt (jsub x m) @ '' '' @ String rt (jsub y m) @ '' '' @
                  String rt (jadd w (jmul (Num 2) m)) @ '' '' @ String rt (jadd h (jmul (Num 2) m)));
          nw = jadd (parseFloat rt wa) (jmul (jmul (Num 2) m) (jdiv (parseFloat rt wa) w));
          wd = setAttribute vb e ''width'' (String rt nw @ ''ex'')
      in if truthy (getAttribute doc e ''height'')
            \<and> \<not> includes_str (the (getAttribute doc e ''height'')) ''%''
         then setAttribute wd e ''height'' (String rt (jdiv nw (jdiv w h)) @ ''ex'')
         else wd)"
  using assms by (simp add: expandViewBox_def Let_def getAttribute_setAttribute)

lemma expandViewBox_unsized:
  assumes "(case getAttribute doc e ''width'' of
              None \<Rightarrow> True
            | Some wa \<Rightarrow> wa = [] \<or> includes_str wa ''%'' \<or> isNaN (parseFloat rt wa))
           \<or> \<not> jgt w (Num 0) \<or> \<not> jgt h (Num 0)"
  shows "expandViewBox rt doc e x y w h m =
     setAttribute doc e ''viewBox''
       (String rt (jsub x m) @ '' '' @ String rt (jsub y m) @ '' '' @
        String rt (jadd w (jmul (Num 2) m)) @ '' '' @ String rt (jadd h (jmul (Num 2) m)))"
  using assms
  by (auto simp add: expandViewBox_def Let_def getAttribute_setAttribute split: option.splits)

lemma expandViewBox_height_kept:
  assumes "(case getAttribute doc e ''height'' of
              None \<Rightarrow> True
            | Some ha \<Rightarrow> ha = [] \<or> includes_str ha ''%'')"
  shows "getAttribute (expandViewBox rt doc e x y w h m) e ''height'' = getAttribute doc e ''height''"
  using assms
  by (auto simp add: expandViewBox_def Let_def getAttribute_setAttribute split: option.splits)

text \<open>
  The cases in which \<open>addMarginToSvg\<close> returns its input text: a margin that is zero or
  negative, no \<open>svg\<close> element, no \<open>viewBox\<close> attribute or an empty one, or a \<open>viewBox\<close> that
  does not split into exactly four pieces.
\<close>

lemma addMarginToSvg_unchanged:
  assumes "jle m (Num 0)
           \<or> getElementsByTagName (parseFromString rt svgText) ''svg'' = []
           \<or> (\<exists>e others. getElementsByTagName (parseFromString rt svgText) ''svg'' = e # others
                 \<and> (case getAttribute (parseFromString rt svgText) e ''viewBox'' of
                       None \<Rightarrow> True
                     | Some viewBox \<Rightarrow> viewBox = [] \<or> length (split_ws viewBox) \<noteq> 4))"
  shows "addMarginToSvg rt svgText m = svgText"
proof (cases "getElementsByTagName (parseFromString rt svgText) ''svg''")
  case Nil
  then show ?thesis
    by (simp add: addMarginToSvg_def)
next
  case (Cons e others)
  show ?thesis
  proof (cases "getAttribute (parseFromString rt svgText) e ''viewBox''")
    case None
    then show ?thesis
      using Cons by (simp add: addMarginToSvg_def)
  next
    case (Some viewBox)
    then show ?thesis
      using Cons assms
      by (auto simp add: addMarginToSvg_def Let_def split: list.splits)
  qed
qed

text \<open>
  C1. A document whose first \<open>svg\<close> element has a \<open>viewBox\<close> that splits into four pieces
  converting to the numbers \<open>x\<close>, \<open>y\<close>, \<open>w\<close>, \<open>h\<close>, processed with a margin \<open>m > 0\<close>: the
  result is the serialization of a document with the same elements whose \<open>viewBox\<close> is
  \<open>x - m\<close>, \<open>y - m\<close>, \<open>w + 2m\<close>, \<open>h + 2m\<close>, separated by single spaces.
\<close>

theorem addMarginToSvg_expands_viewBox:
  assumes "0 < m"
    and "getElementsByTagName (parseFromString rt svgText) ''svg'' = svgElement # others"
    and "getAttribute (parseFromString rt svgText) svgElement ''viewBox'' = Some viewBox"
    and "map (Number rt) (split_ws viewBox) = [Num x, Num y, Num w, Num h]"
  shows "addMarginToSvg rt svgText (Num m) =
           serializeToString rt
             (expandViewBox rt (parseFromString rt svgText) svgElement (Num x) (Num y) (Num w) (Num h) (Num m))
         \<and> getElementsByTagName
             (expandViewBox rt (parseFromString rt svgText) svgElement (Num x) (Num y) (Num w) (Num h) (Num m))
             ''svg'' = svgElement # others
         \<and> getAttribute
             (expandViewBox rt (parseFromString rt svgText) svgElement (Num x) (Num y) (Num w) (Num h) (Num m))
             svgElement ''viewBox'' =
             Some (String rt (Num (x - m)) @ '' '' @ String rt (Num (y - m)) @ '' '' @
                   String rt (Num (w + 2 * m)) @ '' '' @ String rt (Num (h + 2 * m)))"
proof -
  have "\<not> jle (Num m) (Num 0)"
    using assms(1) by simp
  from addMarginToSvg_guards[OF this assms(2) assms(3) assms(4)]
  show ?thesis
    using assms(2)
    by (simp add: expandViewBox_viewBox getElementsByTagName_def expandViewBox_childNodes)
qed

text \<open>The viewBox 0 0 100 50 with margin 20 becomes -20 -20 140 90.\<close>

theorem addMarginToSvg_expands_viewBox_witness:
  \<open>addMarginToSvg exampleRuntime ''<svg viewBox="0 0 100 50"/>'' (Num 20) =
     ''<svg viewBox="-20 -20 140 90"/>''\<close>
  using addMarginToSvg_expands_viewBox[of 20 exampleRuntime \<open>''<svg viewBox="0 0 100 50"/>''\<close> 0 "[]"
     "''0 0 100 50''" 0 0 100 50]
  apply (simp add: exampleRuntime_def exampleParse_viewBox_only)
  apply (simp add: svgOnly_def getElementsByTagName_def getAttribute_def example_conversions)
  apply (simp add: expandViewBox_def Let_def setAttribute_def getAttribute_def example_conversions
     serializeDocument_def)
  done

text \<open>
  C2. The margin post-processor is to return its input unchanged when the \<open>viewBox\<close> does not
  consist of four numeric components. The code checks the number of components and not
  that they are numbers: a \<open>viewBox\<close> of four non-numeric pieces passes the guards, and the
  document comes back with the \<open>viewBox\<close> overwritten by four \<open>NaN\<close>.
\<close>

theorem addMarginToSvg_non_numeric_viewBox:
  \<open>addMarginToSvg exampleRuntime ''<svg viewBox="a b c d"/>'' (Num 20) =
     ''<svg viewBox="NaN NaN NaN NaN"/>''\<close>
  by (simp add: addMarginToSvg_def exampleRuntime_def exampleParse_letters svgOnly_def
      getElementsByTagName_def getAttribute_def expandViewBox_def Let_def setAttribute_def
      example_conversions serializeDocument_def)

text \<open>
  C8. Past the guards, with a margin \<open>m > 0\<close>: when the declared \<open>width\<close> is absent or empty,
  has a percent sign or does not parse to a number, or the \<open>viewBox\<close> width or height is
  not positive, the result is the input document with only the \<open>viewBox\<close> attribute set,
  so the declared \<open>width\<close> and \<open>height\<close> are as before. In every case a declared \<open>height\<close>
  that is absent, empty or has a percent sign is as before.
\<close>

theorem addMarginToSvg_keeps_declared_size:
  assumes "0 < m"
    and "getElementsByTagName (parseFromString rt svgText) ''svg'' = svgElement # others"
    and "getAttribute (parseFromString rt svgText) svgElement ''viewBox'' = Some viewBox"
    and "map (Number rt) (split_ws viewBox) = [x, y, w, h]"
  shows "addMarginToSvg rt svgText (Num m) =
           serializeToString rt
             (expandViewBox rt (parseFromString rt svgText) svgElement x y w h (Num m))
         \<and> ((case getAttribute (parseFromString rt svgText) svgElement ''width'' of
               None \<Rightarrow> True
             | Some wa \<Rightarrow> wa = [] \<or> includes_str wa ''%'' \<or> isNaN (parseFloat rt wa))
             \<or> \<not> jgt w (Num 0) \<or> \<not> jgt h (Num 0)
            \<longrightarrow> expandViewBox rt (parseFromString rt svgText) svgElement x y w h (Num m) =
                  setAttribute (parseFromString rt svgText) svgElement ''viewBox''
                    (String rt (jsub x (Num m)) @ '' '' @ String rt (jsub y (Num m)) @ '' '' @
                     String rt (jadd w (jmul (Num 2) (Num m))) @ '' '' @
                     String rt (jadd h (jmul (Num 2) (Num m))))
                \<and> getAttribute
                    (expandViewBox rt (parseFromString rt svgText) svgElement x y w h (Num m))
                    svgElement ''width'' = getAttribute (parseFromString rt svgText) svgElement ''width''
                \<and> getAttribute
                    (expandViewBox rt (parseFromString rt svgText) svgElement x y w h (Num m))
                    svgElement ''height'' = getAttribute (parseFromString rt svgText) svgElement ''height'')
         \<and> ((case getAttribute (parseFromString rt svgText) svgElement ''height'' of
               None \<Rightarrow> True
             | Some ha \<Rightarrow> ha = [] \<or> includes_str ha ''%'')
            \<longrightarrow> getAttribute
                  (expandViewBox rt (parseFromString rt svgText) svgElement x y w h (Num m))
                  svgElement ''height'' = getAttribute (parseFromString rt svgText) svgElement ''height'')"
proof -
  have g: "\<not> jle (Num m) (Num 0)"
    using assms(1) by simp
  show ?thesis
    by (simp add: addMarginToSvg_guards[OF g assms(2) assms(3) assms(4)]
          expandViewBox_unsized expandViewBox_height_kept getAttribute_setAttribute)
qed

text \<open>A declared width of 100%: only the viewBox changes.\<close>

theorem addMarginToSvg_keeps_declared_size_witness:
  \<open>addMarginToSvg exampleRuntime ''<svg viewBox="0 0 100 50" width="100%" height="5ex"/>'' (Num 20) =
     ''<svg viewBox="-20 -20 140 90" width="100%" height="5ex"/>''\<close>
  using addMarginToSvg_keeps_declared_size[of 20 exampleRuntime
     \<open>''<svg viewBox="0 0 100 50" width="100%" height="5ex"/>''\<close> 0 "[]"
     "''0 0 100 50''" "Num 0" "Num 0" "Num 100" "Num 50"]
  apply (simp add: exampleRuntime_def exampleParse_percent)
  apply (simp add: svgOnly_def getElementsByTagName_def getAttribute_def example_conversions)
  apply (simp add: setAttribute_def serializeDocument_def example_conversions)
  done

text \<open>
  C10. Past the guards, with a margin \<open>m > 0\<close>: each of the declared \<open>width\<close> and \<open>height\<close> is
  either as before or a number followed by \<open>ex\<close>; and a declared \<open>width\<close> that is rewritten
  (not empty, no percent sign, parsing to a number, the \<open>viewBox\<close> width and height
  positive) becomes the new width value followed by \<open>ex\<close>, whatever follows the number
  in the original value.
\<close>

theorem addMarginToSvg_writes_ex_unit:
  assumes "0 < m"
    and "getElementsByTagName (parseFromString rt svgText) ''svg'' = svgElement # others"
    and "getAttribute (parseFromString rt svgText) svgElement ''viewBox'' = Some viewBox"
    and "map (Number rt) (split_ws viewBox) = [x, y, w, h]"
  shows "addMarginToSvg rt svgText (Num m) =
           serializeToString rt
             (expandViewBox rt (parseFromString rt svgText) svgElement x y w h (Num m))
         \<and> (\<forall>a \<in> {''width'', ''height''}.
               getAttribute (expandViewBox rt (parseFromString rt svgText) svgElement x y w h (Num m))
                 svgElement a = getAttribute (parseFromString rt svgText) svgElement a
               \<or> (\<exists>v. getAttribute
                         (expandViewBox rt (parseFromString rt svgText) svgElement x y w h (Num m))
                         svgElement a = Some (String rt v @ ''ex'')))
         \<and> (\<forall>wa. getAttribute (parseFromString rt svgText) svgElement ''width'' = Some wa
                 \<and> wa \<noteq> [] \<and> \<not> includes_str wa ''%'' \<and> \<not> isNaN (parseFloat rt wa)
                 \<and> jgt w (Num 0) \<and> jgt h (Num 0)
               \<longrightarrow> getAttribute
                     (expandViewBox rt (parseFromString rt svgText) svgElement x y w h (Num m))
                     svgElement ''width'' =
                     Some (String rt (jadd (parseFloat rt wa)
                                        (jmul (jmul (Num 2) (Num m)) (jdiv (parseFloat rt wa) w))) @ ''ex''))"
proof -
  let ?doc = "parseFromString rt svgText"
  let ?D = "expandViewBox rt ?doc svgElement x y w h (Num m)"
  have g: "\<not> jle (Num m) (Num 0)"
    using assms(1) by simp
  have a: "getAttribute ?D svgElement a = getAttribute ?doc svgElement a
           \<or> (\<exists>v. getAttribute ?D svgElement a = Some (String rt v @ ''ex''))"
    if "a \<in> {''width'', ''height''}" for a
    using that by (auto simp add: expandViewBox_def Let_def getAttribute_setAttribute)
  have b: "getAttribute ?D svgElement ''width'' =
             Some (String rt (jadd (parseFloat rt wa)
                                (jmul (jmul (Num 2) (Num m)) (jdiv (parseFloat rt wa) w))) @ ''ex'')"
    if "getAttribute ?doc svgElement ''width'' = Some wa" "wa \<noteq> []" "\<not> includes_str wa ''%''"
       "\<not> isNaN (parseFloat rt wa)" "jgt w (Num 0)" "jgt h (Num 0)" for wa
    using that by (simp add: expandViewBox_sized Let_def getAttribute_setAttribute)
  show ?thesis
    using a b by (simp only: addMarginToSvg_guards[OF g assms(2) assms(3) assms(4)]) blast
qed

text \<open>A declared width of 10pt with viewBox width 100 and margin 20 becomes 14ex.\<close>

theorem addMarginToSvg_writes_ex_unit_witness:
  \<open>addMarginToSvg exampleRuntime ''<svg viewBox="0 0 100 50" width="10pt" height="5pt"/>'' (Num 20) =
     ''<svg viewBox="-20 -20 140 90" width="14ex" height="7ex"/>''\<close>
  using addMarginToSvg_writes_ex_unit[of 20 exampleRuntime
     \<open>''<svg viewBox="0 0 100 50" width="10pt" height="5pt"/>''\<close> 0 "[]"
     "''0 0 100 50''" "Num 0" "Num 0" "Num 100" "Num 50"]
  apply (simp add: exampleRuntime_def exampleParse_pt)
  apply (simp add: svgOnly_def getElementsByTagName_def getAttribute_def example_conversions)
  apply (simp add: expandViewBox_def Let_def setAttribute_def getAttribute_def example_conversions
      serializeDocument_def)
  done

section \<open>The outline post-processor: properties\<close>

lemma map_of_outlinedAttrs:
  "map_of (outlinedAttrs rt opts as) a =
     (if a = ''stroke-linejoin'' then Some ''round''
      else if a = ''paint-order'' then Some ''stroke fill''
      else if a = ''stroke-width'' then Some (String rt (strokeWidth opts))
      else if a = ''stroke'' then Some (stroke opts)
      else map_of as a)"
  by (simp add: outlinedAttrs_def map_of_setAttr)

text \<open>Setting the four attributes again changes nothing.\<close>

lemma outlinedAttrs_idem: "outlinedAttrs rt opts (outlinedAttrs rt opts as) = outlinedAttrs rt opts as"
proof -
  let ?b = "outlinedAttrs rt opts as"
  have 1: "setAttr ''stroke'' (stroke opts) ?b = ?b"
    by (rule setAttr_same) (simp add: map_of_outlinedAttrs)
  have 2: "setAttr ''stroke-width'' (String rt (strokeWidth opts)) ?b = ?b"
    by (rule setAttr_same) (simp add: map_of_outlinedAttrs)
  have 3: "setAttr ''paint-order'' ''stroke fill'' ?b = ?b"
    by (rule setAttr_same) (simp add: map_of_outlinedAttrs)
  have 4: "setAttr ''stroke-linejoin'' ''round'' ?b = ?b"
    by (rule setAttr_same) (simp add: map_of_outlinedAttrs)
  have "outlinedAttrs rt opts ?b =
          setAttr ''stroke-linejoin'' ''round''
            (setAttr ''paint-order'' ''stroke fill''
               (setAttr ''stroke-width'' (String rt (strokeWidth opts))
                  (setAttr ''stroke'' (stroke opts) ?b)))"
    by (simp only: outlinedAttrs_def)
  also have "\<dots> = ?b"
    by (simp only: 1 2 3 4)
  finally show ?thesis .
qed

lemma outlinePath_eq:
  "outlinePath rt opts doc p =
     (if map_of (attributes doc p) ''fill'' = Some ''none'' then doc
      else doc\<lparr>attributes := (attributes doc)(p := outlinedAttrs rt opts (attributes doc p))\<rparr>)"
  by (simp add: outlinePath_def Let_def setAttribute_def getAttribute_def outlinedAttrs_def)

lemma childNodes_outlinePaths: "childNodes (outlinePaths rt opts doc ps) = childNodes doc"
  by (induction ps arbitrary: doc) (simp_all add: outlinePath_eq)

text \<open>
  The loop, element by element: an element of the list whose \<open>fill\<close> is not \<open>none\<close> ends with
  the four attributes set, every other element with the attributes it had.
\<close>

lemma attributes_outlinePaths:
  "attributes (outlinePaths rt opts doc ps) r =
     (if r \<in> set ps \<and> map_of (attributes doc r) ''fill'' \<noteq> Some ''none''
      then outlinedAttrs rt opts (attributes doc r)
      else attributes doc r)"
proof (induction ps arbitrary: doc)
  case Nil
  then show ?case by simp
next
  case (Cons p ps)
  show ?case
    by (auto simp add: Cons.IH outlinePath_eq map_of_outlinedAttrs outlinedAttrs_idem)
qed

lemma outlineDocument_idem:
  "outlineDocument rt opts (outlineDocument rt opts doc) = outlineDocument rt opts doc"
proof (rule document.equality)
  let ?D = "outlineDocument rt opts doc"
  show "childNodes (outlineDocument rt opts ?D) = childNodes ?D"
    by (simp add: outlineDocument_def childNodes_outlinePaths)
  have paths: "getElementsByTagName ?D ''path'' = getElementsByTagName doc ''path''"
    by (simp add: getElementsByTagName_def outlineDocument_def childNodes_outlinePaths)
  show "attributes (outlineDocument rt opts ?D) = attributes ?D"
  proof
    fix r
    show "attributes (outlineDocument rt opts ?D) r = attributes ?D r"
      unfolding outlineDocument_def[of rt opts ?D] paths attributes_outlinePaths
      by (simp add: outlineDocument_def attributes_outlinePaths map_of_outlinedAttrs outlinedAttrs_idem)
  qed
  show "document.more (outlineDocument rt opts ?D) = document.more ?D"
    by simp
qed

lemma outlineDocument_twoPaths:
  "outlineDocument exampleRuntime \<lparr>stroke = ''#ddd'', strokeWidth = Num 45\<rparr>
     (twoPaths [(''d'', ''M0 0'')] [(''fill'', ''none''), (''d'', ''M1 1'')]) =
   twoPaths [(''d'', ''M0 0''), (''stroke'', ''#ddd''), (''stroke-width'', ''45''),
             (''paint-order'', ''stroke fill''), (''stroke-linejoin'', ''round'')]
            [(''fill'', ''none''), (''d'', ''M1 1'')]"
  by (simp add: outlineDocument_def twoPaths_def getElementsByTagName_def outlinePath_def
        getAttribute_def setAttribute_def Let_def fun_eq_iff exampleRuntime_def
        numberString_def natString.simps)

text \<open>
  C4. The result of the outline post-processor is the serialization of the parsed document
  after the loop. On every document, the parsed one among them, the loop leaves the tree
  of elements as it is: no element is added or removed. Each \<open>path\<close> element whose
  \<open>fill\<close> is \<open>none\<close> keeps its attribute list; each other \<open>path\<close> element has \<open>stroke\<close> and
  \<open>stroke-width\<close> as configured, \<open>paint-order\<close> \<open>stroke fill\<close> and \<open>stroke-linejoin\<close> \<open>round\<close>, and
  every other attribute as before. An element that is not a \<open>path\<close> keeps its attribute
  list.
\<close>

theorem addOutlineToMathJaxSvg_outlines_filled_paths:
  "addOutlineToMathJaxSvg rt svgText opts =
     serializeToString rt (outlineDocument rt opts (parseFromString rt svgText))
   \<and> childNodes (outlineDocument rt opts doc) = childNodes doc
   \<and> (\<forall>p \<in> set (getElementsByTagName doc ''path'').
        if getAttribute doc p ''fill'' = Some ''none''
        then attributes (outlineDocument rt opts doc) p = attributes doc p
        else getAttribute (outlineDocument rt opts doc) p ''stroke'' = Some (stroke opts)
           \<and> getAttribute (outlineDocument rt opts doc) p ''stroke-width'' =
               Some (String rt (strokeWidth opts))
           \<and> getAttribute (outlineDocument rt opts doc) p ''paint-order'' = Some ''stroke fill''
           \<and> getAttribute (outlineDocument rt opts doc) p ''stroke-linejoin'' = Some ''round''
           \<and> (\<forall>a. a \<notin> {''stroke'', ''stroke-width'', ''paint-order'', ''stroke-linejoin''}
                 \<longrightarrow> getAttribute (outlineDocument rt opts doc) p a = getAttribute doc p a))
   \<and> (\<forall>r. r \<notin> set (getElementsByTagName doc ''path'')
          \<longrightarrow> attributes (outlineDocument rt opts doc) r = attributes doc r)"
  by (simp add: addOutlineToMathJaxSvg_def Let_def outlineDocument_def childNodes_outlinePaths
        attributes_outlinePaths getAttribute_def map_of_outlinedAttrs)

text \<open>Two paths, the second with fill none, outlined with stroke #ddd and width 45.\<close>

theorem addOutlineToMathJaxSvg_outlines_filled_paths_witness:
  \<open>addOutlineToMathJaxSvg exampleRuntime
      ''<svg><path d="M0 0"/><path fill="none" d="M1 1"/></svg>''
      \<lparr>stroke = ''#ddd'', strokeWidth = Num 45\<rparr> =
    ''<svg><path d="M0 0" stroke="#ddd" stroke-width="45" paint-order="stroke fill" stroke-linejoin="round"/><path fill="none" d="M1 1"/></svg>''\<close>
  using addOutlineToMathJaxSvg_outlines_filled_paths[of exampleRuntime
      \<open>''<svg><path d="M0 0"/><path fill="none" d="M1 1"/></svg>''\<close>
      "\<lparr>stroke = ''#ddd'', strokeWidth = Num 45\<rparr>"
      "twoPaths [(''d'', ''M0 0'')] [(''fill'', ''none''), (''d'', ''M1 1'')]"]
  apply (simp only: outlineDocument_twoPaths)
  apply (simp add: exampleRuntime_def exampleParse_paths)
  apply (simp add: outlineDocument_twoPaths[unfolded exampleRuntime_def])
  apply (simp add: twoPaths_def serializeDocument_def)
  done

text \<open>
  C9. Running the loop on a document it has already processed, with the same style, gives
  the same document. On text: when parsing the output of the post-processor gives back
  the document that was serialized, a second application returns the output of the first.
\<close>

theorem addOutlineToMathJaxSvg_idempotent:
  "outlineDocument rt opts (outlineDocument rt opts doc) = outlineDocument rt opts doc
   \<and> (parseFromString rt (addOutlineToMathJaxSvg rt svgText opts) =
         outlineDocument rt opts (parseFromString rt svgText)
      \<longrightarrow> addOutlineToMathJaxSvg rt (addOutlineToMathJaxSvg rt svgText opts) opts =
            addOutlineToMathJaxSvg rt svgText opts)"
  by (simp add: outlineDocument_idem addOutlineToMathJaxSvg_def Let_def)

theorem addOutlineToMathJaxSvg_idempotent_witness:
  \<open>addOutlineToMathJaxSvg exampleRuntime
      (addOutlineToMathJaxSvg exampleRuntime
         ''<svg><path d="M0 0"/><path fill="none" d="M1 1"/></svg>''
         \<lparr>stroke = ''#ddd'', strokeWidth = Num 45\<rparr>)
      \<lparr>stroke = ''#ddd'', strokeWidth = Num 45\<rparr> =
    addOutlineToMathJaxSvg exampleRuntime
      ''<svg><path d="M0 0"/><path fill="none" d="M1 1"/></svg>''
      \<lparr>stroke = ''#ddd'', strokeWidth = Num 45\<rparr>\<close>
proof -
  let ?t = \<open>''<svg><path d="M0 0"/><path fill="none" d="M1 1"/></svg>''\<close>
  let ?o = "\<lparr>stroke = ''#ddd'', strokeWidth = Num 45\<rparr>"
  have p: "parseFromString exampleRuntime ?t =
             twoPaths [(''d'', ''M0 0'')] [(''fill'', ''none''), (''d'', ''M1 1'')]"
    by (simp add: exampleRuntime_def exampleParse_paths)
  have "parseFromString exampleRuntime (addOutlineToMathJaxSvg exampleRuntime ?t ?o) =
          outlineDocument exampleRuntime ?o (parseFromString exampleRuntime ?t)"
    unfolding addOutlineToMathJaxSvg_def Let_def p outlineDocument_twoPaths
    by (simp add: exampleRuntime_def exampleParse_inverse exampleDocuments_def)
  with addOutlineToMathJaxSvg_idempotent[of exampleRuntime ?o _ ?t]
  show ?thesis by blast
qed

section \<open>The input enumerator: properties\<close>

lemma toLowerChar_dot: "toLowerChar c = CHR ''.'' \<longleftrightarrow> c = CHR ''.''"
  by (auto simp: toLowerChar_def upperCaseLetters_def lowerCaseLetters_def split: if_splits)

lemma toLowerChar_t: "toLowerChar c = CHR ''t'' \<longleftrightarrow> c = CHR ''t'' \<or> c = CHR ''T''"
  by (auto simp: toLowerChar_def upperCaseLetters_def lowerCaseLetters_def split: if_splits)

lemma toLowerChar_e: "toLowerChar c = CHR ''e'' \<longleftrightarrow> c = CHR ''e'' \<or> c = CHR ''E''"
  by (auto simp: toLowerChar_def upperCaseLetters_def lowerCaseLetters_def split: if_splits)

lemma toLowerChar_x: "toLowerChar c = CHR ''x'' \<longleftrightarrow> c = CHR ''x'' \<or> c = CHR ''X''"
  by (auto simp: toLowerChar_def upperCaseLetters_def lowerCaseLetters_def split: if_splits)

lemma map_eq_4:
  "map f r = [a, b, c, d] \<longleftrightarrow>
     (\<exists>a' b' c' d'. r = [a', b', c', d'] \<and> f a' = a \<and> f b' = b \<and> f c' = c \<and> f d' = d)"
  by (auto simp: map_eq_Cons_conv)

text \<open>
  The test of \<open>listTexFiles\<close> on a name, without the functions of the code: the name ends
  with a dot followed by t, e, x, each in either case.
\<close>

lemma endsWith_tex:
  "endsWith (toLowerCase n) ''.tex'' \<longleftrightarrow>
     (\<exists>base c1 c2 c3. n = base @ [CHR ''.'', c1, c2, c3]
        \<and> c1 \<in> {CHR ''t'', CHR ''T''} \<and> c2 \<in> {CHR ''e'', CHR ''E''} \<and> c3 \<in> {CHR ''x'', CHR ''X''})"
  (is "?l \<longleftrightarrow> ?r")
proof
  assume ?l
  then obtain zs where "map toLowerChar n = zs @ ''.tex''"
    by (auto simp add: endsWith_def toLowerCase_def suffix_def)
  then obtain base c0 c1 c2 c3 where n: "n = base @ [c0, c1, c2, c3]"
      and "CHR ''.'' = toLowerChar c0" "CHR ''t'' = toLowerChar c1"
      and "CHR ''e'' = toLowerChar c2" "CHR ''x'' = toLowerChar c3"
    by (auto simp add: map_eq_append_conv)
  then have "toLowerChar c0 = CHR ''.''" "toLowerChar c1 = CHR ''t''"
      "toLowerChar c2 = CHR ''e''" "toLowerChar c3 = CHR ''x''"
    by simp_all
  then have "n = base @ [CHR ''.'', c1, c2, c3]
        \<and> c1 \<in> {CHR ''t'', CHR ''T''} \<and> c2 \<in> {CHR ''e'', CHR ''E''} \<and> c3 \<in> {CHR ''x'', CHR ''X''}"
    using n by (simp add: toLowerChar_dot toLowerChar_t toLowerChar_e toLowerChar_x)
  then show ?r
    by (intro exI)
next
  assume ?r
  then obtain base c1 c2 c3 where n: "n = base @ [CHR ''.'', c1, c2, c3]"
      and c: "c1 \<in> {CHR ''t'', CHR ''T''}" "c2 \<in> {CHR ''e'', CHR ''E''}" "c3 \<in> {CHR ''x'', CHR ''X''}"
    by (elim exE conjE)
  have "toLowerChar (CHR ''.'') = CHR ''.''" "toLowerChar c1 = CHR ''t''"
      "toLowerChar c2 = CHR ''e''" "toLowerChar c3 = CHR ''x''"
    using c by (simp_all add: toLowerChar_dot toLowerChar_t toLowerChar_e toLowerChar_x)
  then have "toLowerCase n = map toLowerChar base @ ''.tex''"
    by (simp add: n toLowerCase_def)
  then show ?l
    by (simp add: endsWith_def suffix_def)
qed

text \<open>
  C5. For a directory that can be listed, \<open>listTexFiles\<close> returns a list that is sorted
  ascending (strings compared character by character, by character code), whose elements
  are exactly the names, as they are spelled in the listing, of the entries that are
  regular files and end with \<open>.tex\<close> in any mix of upper and lower case, one element for
  each such entry.
\<close>

theorem listTexFiles_sorted_tex_names:
  assumes "readdir env dir = Some items"
  shows "\<exists>names. listTexFiles env dir = Inr names
           \<and> sorted names
           \<and> set names =
               {name d |d. d \<in> set items \<and> isFile d
                  \<and> (\<exists>base c1 c2 c3. name d = base @ [CHR ''.'', c1, c2, c3]
                        \<and> c1 \<in> {CHR ''t'', CHR ''T''} \<and> c2 \<in> {CHR ''e'', CHR ''E''}
                        \<and> c3 \<in> {CHR ''x'', CHR ''X''})}
           \<and> length names =
               length (filter (\<lambda>d. isFile d \<and> endsWith (toLowerCase (name d)) ''.tex'') items)"
  using assms by (auto simp add: listTexFiles_def endsWith_tex)

text \<open>The listing b.tex, A.TEX, c.txt gives A.TEX, b.tex.\<close>

theorem listTexFiles_sorted_tex_names_witness:
  "listTexFiles
     (exampleEnvironment
        [\<lparr>name = ''b.tex'', isFile = True\<rparr>, \<lparr>name = ''A.TEX'', isFile = True\<rparr>,
         \<lparr>name = ''c.txt'', isFile = True\<rparr>])
     ''/work/equations'' = Inr [''A.TEX'', ''b.tex'']"
  using listTexFiles_sorted_tex_names[of
     "exampleEnvironment
        [\<lparr>name = ''b.tex'', isFile = True\<rparr>, \<lparr>name = ''A.TEX'', isFile = True\<rparr>,
         \<lparr>name = ''c.txt'', isFile = True\<rparr>]" "''/work/equations''"
        "[\<lparr>name = ''b.tex'', isFile = True\<rparr>, \<lparr>name = ''A.TEX'', isFile = True\<rparr>,
         \<lparr>name = ''c.txt'', isFile = True\<rparr>]"]
  by (simp add: listTexFiles_def exampleEnvironment_def endsWith_def toLowerCase_def toLowerChar_def
        upperCaseLetters_def lowerCaseLetters_def suffix_to_prefix)

section \<open>The batch: properties\<close>



text \<open>
  C7. When the enumerator returns no file, \<open>main\<close> ends without raising, in the state it
  started from except for three things: the output directory is made, one error line is
  on the console, and the exit code is 1. No file is written.
\<close>

theorem main_reports_no_tex_files:
  assumes "listTexFiles env (resolve env (equationsDir cfg)) = Inr []"
  shows "main rt env cfg w =
           (None, w\<lparr>dirs := insert (resolve env (outDir cfg)) (dirs w),
                    console := console w @
                      [error_line (''No .tex files found in '' @ resolve env (equationsDir cfg))],
                    exitCode := Some 1\<rparr>)"
  using assms by (simp add: main_def Let_def ensureDir_def)

text \<open>A directory with a subdirectory named b.tex and a file a.txt.\<close>

theorem main_reports_no_tex_files_witness:
  "main exampleRuntime
     (exampleEnvironment [\<lparr>name = ''b.tex'', isFile = False\<rparr>, \<lparr>name = ''a.txt'', isFile = True\<rparr>])
     exampleConfig exampleWorld =
   (None, exampleWorld\<lparr>dirs := {''/work/out''},
            console := [error_line ''No .tex files found in /work/equations''],
            exitCode := Some 1\<rparr>)"
  using main_reports_no_tex_files[of
     "exampleEnvironment [\<lparr>name = ''b.tex'', isFile = False\<rparr>, \<lparr>name = ''a.txt'', isFile = True\<rparr>]"
     exampleConfig exampleRuntime exampleWorld]
  by (simp add: listTexFiles_def exampleEnvironment_def exampleConfig_def exampleWorld_def
        endsWith_def toLowerCase_def toLowerChar_def upperCaseLetters_def lowerCaseLetters_def
        suffix_to_prefix)

end
